theory Spec2Isabelle
  imports Complex_Main
begin

section \<open>Channel gain measurement between two LOG-a-TEC nodes\<close>

text \<open>
  A shallow embedding of \<^verbatim>\<open>src/logatec/logatec.py\<close>: the class \<^verbatim>\<open>NodePair\<close> with its
  constructor, \<^verbatim>\<open>measure\<close> and \<^verbatim>\<open>get_channel_gain\<close>.

  Conventions of the embedding.
  \<^item> Python floats are real numbers: time stamps, frequencies, powers in dBm and in mW
    are exact reals, so rounding of float64 arithmetic is not part of the model. The
    non-finite results that numpy produces from finite arguments (\<^verbatim>\<open>nan\<close>, \<^verbatim>\<open>-inf\<close>,
    \<^verbatim>\<open>inf\<close>) are values of the type \<open>npfloat\<close>.
    The properties below say which formula the program evaluates and in which order it
    acts. They say nothing about rounding: how far \<^verbatim>\<open>db_to_mw(mw_to_db(x))\<close> is from \<open>x\<close>
    in float64, where \<^verbatim>\<open>10.**(db/10.)\<close> overflows, and how the float64 sum inside
    \<^verbatim>\<open>np.mean\<close> depends on the order of the samples are outside the model.
  \<^item> Everything the program does to the outside (calls on the two nodes, \<^verbatim>\<open>print\<close>,
    \<^verbatim>\<open>time.sleep\<close>) is an event appended to a trace. What the outside answers is given
    by a \<open>world\<close>: its answers may depend on the whole trace so far.
  \<^item> A raised exception is the outcome \<open>Raised\<close>. The polling loop of \<^verbatim>\<open>measure\<close> has
    no bound in the source; the model runs it with fuel (the number of polls it may
    make) and the outcome \<open>Running\<close> says that the loop is still waiting when the fuel
    is used up.
\<close>

subsection \<open>Values\<close>

text \<open>A numpy float64 as far as the program can tell finite from non-finite values.\<close>

datatype npfloat = Fin real | PosInf | NegInf | NaN

text \<open>
  Hardware configurations are chosen by the vesna-alh-tools library from the catalog a
  node reports; the program only passes them on. They are opaque handles here.
\<close>

datatype tx_config = TxConfig nat
datatype sweep_config = SweepConfig nat

text \<open>\<^verbatim>\<open>SignalGeneratorProgram(tx_config, time_start, time_duration)\<close>\<close>

datatype generator_program = SignalGeneratorProgram tx_config real real

text \<open>\<^verbatim>\<open>SpectrumSensorProgram(sweep_config, time_start, time_duration, slot_id)\<close>\<close>

datatype sensor_program = SpectrumSensorProgram sweep_config real real nat

fun gp_start :: "generator_program \<Rightarrow> real" where
  "gp_start (SignalGeneratorProgram c s d) = s"

fun gp_duration :: "generator_program \<Rightarrow> real" where
  "gp_duration (SignalGeneratorProgram c s d) = d"

fun sp_start :: "sensor_program \<Rightarrow> real" where
  "sp_start (SpectrumSensorProgram c s d k) = s"

fun sp_duration :: "sensor_program \<Rightarrow> real" where
  "sp_duration (SpectrumSensorProgram c s d k) = d"

text \<open>
  The catalogs: \<^verbatim>\<open>ConfigList.get_tx_config(f_hz, power_dbm)\<close> and
  \<^verbatim>\<open>ConfigList.get_sweep_config(start_hz, stop_hz, step_hz)\<close> return a configuration or
  \<^verbatim>\<open>None\<close>. Both are lookups in the list the node reported, local to the program.
\<close>

type_synonym generator_config_list = "real \<Rightarrow> real \<Rightarrow> tx_config option"
type_synonym sensor_config_list = "real \<Rightarrow> real \<Rightarrow> real \<Rightarrow> sweep_config option"

definition get_tx_config :: "generator_config_list \<Rightarrow> real \<Rightarrow> real \<Rightarrow> tx_config option" where
  "get_tx_config cl f_hz power_dbm = cl f_hz power_dbm"

definition get_sweep_config ::
  "sensor_config_list \<Rightarrow> real \<Rightarrow> real \<Rightarrow> real \<Rightarrow> sweep_config option" where
  "get_sweep_config cl start_hz stop_hz step_hz = cl start_hz stop_hz step_hz"

text \<open>The arguments of the four \<^verbatim>\<open>print\<close> statements (the values, not their formatting).\<close>

datatype message =
    Waiting
  | P_noise npfloat npfloat npfloat
  | P_rx npfloat npfloat npfloat
  | H_dB npfloat

datatype event =
    GeneratorGetConfigList
  | SensorGetConfigList
  | GeneratorProgram generator_program
  | SensorProgram sensor_program
  | IsComplete sensor_program bool
  | Retrieve sensor_program "real list list"
  | Print message
  | Sleep real

datatype exn = Exception string | IndexError

datatype 'a outcome = Returned 'a | Raised exn | Running

subsection \<open>The outside world\<close>

record world =
  time_time :: "event list \<Rightarrow> real"
  generator_get_config_list :: generator_config_list
  sensor_get_config_list :: sensor_config_list
  is_complete :: "event list \<Rightarrow> sensor_program \<Rightarrow> bool"
  retrieve :: "event list \<Rightarrow> sensor_program \<Rightarrow> real list list"

subsection \<open>The class NodePair\<close>

record NodePair =
  generator_cl :: generator_config_list
  sensor_cl :: sensor_config_list

text \<open>\<^verbatim>\<open>__init__\<close> (lines 25-37): both catalogs are fetched and stored.\<close>

definition NodePair_init :: "world \<Rightarrow> event list \<Rightarrow> NodePair \<times> event list" where
  "NodePair_init w tr =
     (let gcl = generator_get_config_list w;
          tr1 = tr @ [GeneratorGetConfigList];
          scl = sensor_get_config_list w;
          tr2 = tr1 @ [SensorGetConfigList]
      in (\<lparr>generator_cl = gcl, sensor_cl = scl\<rparr>, tr2))"

text \<open>
  The loop of lines 83-85:
  \<^verbatim>\<open>while not self.sensor.is_complete(sensor_p): print "waiting..."; time.sleep(2)\<close>.
  The result says whether the loop was left (\<open>True\<close>) or the fuel ran out (\<open>False\<close>).
\<close>

fun wait_complete ::
  "nat \<Rightarrow> world \<Rightarrow> sensor_program \<Rightarrow> event list \<Rightarrow> event list \<times> bool" where
  "wait_complete 0 w sensor_p tr = (tr, False)"
| "wait_complete (Suc n) w sensor_p tr =
     (let c = is_complete w tr sensor_p;
          tr1 = tr @ [IsComplete sensor_p c]
      in if c then (tr1, True)
         else wait_complete n w sensor_p (tr1 @ [Print Waiting, Sleep 2]))"

text \<open>
  \<^verbatim>\<open>np.array(result.get_data())[:,0]\<close> (line 91). The data is a list of sweeps, each a
  list of readings. numpy builds a two-dimensional array when all rows have the same
  length, and the slice takes the first reading of every row. An empty list, rows of
  length zero and rows of different lengths (a one-dimensional array of objects) make
  the slice raise \<^verbatim>\<open>IndexError\<close>.
\<close>

definition first_column :: "real list list \<Rightarrow> exn + real list" where
  "first_column rows =
     (case rows of
        [] \<Rightarrow> Inl IndexError
      | r # rs \<Rightarrow>
          if r \<noteq> [] \<and> list_all (\<lambda>r'. length r' = length r) rs
          then Inr (map hd rows) else Inl IndexError)"

text \<open>
  \<^verbatim>\<open>NodePair.measure\<close> (lines 43-91), named \<open>measure_np\<close> here since HOL has a
  constant \<open>measure\<close> of its own. \<open>tr\<close> is the trace before the call.
\<close>

definition measure_np ::
  "nat \<Rightarrow> world \<Rightarrow> NodePair \<Rightarrow> event list \<Rightarrow> real \<Rightarrow> real option
     \<Rightarrow> event list \<times> real list outcome" where
  "measure_np fuel w self tr f_hz ptx_dbm =
     (let now = time_time w tr in
      case (case ptx_dbm of
              None \<Rightarrow> Inr tr
            | Some p \<Rightarrow>
                (case get_tx_config (generator_cl self) f_hz p of
                   None \<Rightarrow> Inl (Exception ''Node can not scan specified frequency range.'')
                 | Some tx_config \<Rightarrow>
                     Inr (tr @ [GeneratorProgram
                                  (SignalGeneratorProgram tx_config (now + 1) 14)]))) of
        Inl e \<Rightarrow> (tr, Raised e)
      | Inr tr1 \<Rightarrow>
          (case get_sweep_config (sensor_cl self) f_hz f_hz 400000 of
             None \<Rightarrow> (tr1, Raised (Exception ''Node can not scan specified frequency range.''))
           | Some sweep_config \<Rightarrow>
               (let sensor_p = SpectrumSensorProgram sweep_config (now + 3) 10 1;
                    tr2 = tr1 @ [SensorProgram sensor_p]
                in case wait_complete fuel w sensor_p tr2 of
                     (tr3, False) \<Rightarrow> (tr3, Running)
                   | (tr3, True) \<Rightarrow>
                       (let data = retrieve w tr3 sensor_p;
                            tr4 = tr3 @ [Retrieve sensor_p data]
                        in (tr4, case first_column data of
                                   Inl e \<Rightarrow> Raised e
                                 | Inr v \<Rightarrow> Returned v)))))"

subsection \<open>The gain computation\<close>

text \<open>\<^verbatim>\<open>db_to_mw(db) = 10.**(db/10.)\<close>, on a number and elementwise on an array.\<close>

definition db_to_mw :: "real \<Rightarrow> real" where
  "db_to_mw db = 10 powr (db / 10)"

text \<open>
  \<^verbatim>\<open>np.log10\<close>: the logarithm of zero is \<^verbatim>\<open>-inf\<close> and the logarithm of a negative number
  is \<^verbatim>\<open>nan\<close>; numpy prints a warning and raises nothing.
\<close>

fun np_log10 :: "npfloat \<Rightarrow> npfloat" where
  "np_log10 (Fin x) = (if 0 < x then Fin (log 10 x) else if x = 0 then NegInf else NaN)"
| "np_log10 PosInf = PosInf"
| "np_log10 NegInf = NaN"
| "np_log10 NaN = NaN"

text \<open>The product of a finite factor and a numpy float.\<close>

fun np_times :: "real \<Rightarrow> npfloat \<Rightarrow> npfloat" where
  "np_times c (Fin x) = Fin (c * x)"
| "np_times c PosInf = (if 0 < c then PosInf else if c < 0 then NegInf else NaN)"
| "np_times c NegInf = (if 0 < c then NegInf else if c < 0 then PosInf else NaN)"
| "np_times c NaN = NaN"

text \<open>\<^verbatim>\<open>mw_to_db(mw) = 10.*np.log10(mw)\<close>\<close>

definition mw_to_db :: "npfloat \<Rightarrow> npfloat" where
  "mw_to_db mw = np_times 10 (np_log10 mw)"

text \<open>\<^verbatim>\<open>np.mean\<close> and \<^verbatim>\<open>np.std\<close> of a one-dimensional array; \<^verbatim>\<open>nan\<close> on an empty one.\<close>

definition np_mean :: "real list \<Rightarrow> npfloat" where
  "np_mean xs = (if xs = [] then NaN else Fin (sum_list xs / real (length xs)))"

definition np_std :: "real list \<Rightarrow> npfloat" where
  "np_std xs =
     (if xs = [] then NaN
      else (let m = sum_list xs / real (length xs)
            in Fin (sqrt (sum_list (map (\<lambda>x. (x - m)\<^sup>2) xs) / real (length xs)))))"

text \<open>Difference of two numpy floats, and the quotient of one by a finite number.\<close>

fun np_minus :: "npfloat \<Rightarrow> npfloat \<Rightarrow> npfloat" where
  "np_minus (Fin x) (Fin y) = Fin (x - y)"
| "np_minus NaN b = NaN"
| "np_minus a NaN = NaN"
| "np_minus PosInf PosInf = NaN"
| "np_minus NegInf NegInf = NaN"
| "np_minus PosInf b = PosInf"
| "np_minus NegInf b = NegInf"
| "np_minus (Fin x) PosInf = NegInf"
| "np_minus (Fin x) NegInf = PosInf"

fun np_divide :: "npfloat \<Rightarrow> real \<Rightarrow> npfloat" where
  "np_divide (Fin x) d =
     (if d \<noteq> 0 then Fin (x / d)
      else if 0 < x then PosInf else if x < 0 then NegInf else NaN)"
| "np_divide PosInf d = (if 0 \<le> d then PosInf else NegInf)"
| "np_divide NegInf d = (if 0 \<le> d then NegInf else PosInf)"
| "np_divide NaN d = NaN"

text \<open>
  \<^verbatim>\<open>get_channel_gain\<close> (lines 94-137). The transmit power is a number: with \<^verbatim>\<open>None\<close> the
  source would raise a \<^verbatim>\<open>TypeError\<close> in line 111, after both measurements. An exception
  of a measurement is not caught, and each of the two polling loops gets the same fuel.
\<close>

definition get_channel_gain ::
  "nat \<Rightarrow> world \<Rightarrow> NodePair \<Rightarrow> event list \<Rightarrow> real \<Rightarrow> real
     \<Rightarrow> event list \<times> npfloat outcome" where
  "get_channel_gain fuel w self tr f_hz ptx_dbm =
     (case measure_np fuel w self tr f_hz None of
        (tr1, Raised e) \<Rightarrow> (tr1, Raised e)
      | (tr1, Running) \<Rightarrow> (tr1, Running)
      | (tr1, Returned pnoise_dbm) \<Rightarrow>
          (case measure_np fuel w self tr1 f_hz (Some ptx_dbm) of
             (tr2, Raised e) \<Rightarrow> (tr2, Raised e)
           | (tr2, Running) \<Rightarrow> (tr2, Running)
           | (tr2, Returned prx_dbm) \<Rightarrow>
               (let ptx_mw = db_to_mw ptx_dbm;
                    pnoise_mw = map db_to_mw pnoise_dbm;
                    prx_mw = map db_to_mw prx_dbm;
                    pnoise_mw_mean = np_mean pnoise_mw;
                    prx_mw_mean = np_mean prx_mw;
                    tr3 = tr2 @
                      [Print (P_noise (mw_to_db pnoise_mw_mean) pnoise_mw_mean
                                (np_std pnoise_mw)),
                       Print (P_rx (mw_to_db prx_mw_mean) prx_mw_mean (np_std prx_mw))];
                    h_mean = np_divide (np_minus prx_mw_mean pnoise_mw_mean) ptx_mw;
                    h_mean_db = mw_to_db h_mean;
                    tr4 = tr3 @ [Print (H_dB h_mean_db)]
                in (tr4, Returned h_mean_db))))"

subsection \<open>Observations on traces\<close>

text \<open>
  Calls on the signal generator (the transmitting node), program submissions, and catalog
  queries; the events a call issued, given the trace before and after it; and the events
  of \<open>k\<close> unsuccessful rounds of the polling loop.
\<close>

fun to_generator :: "event \<Rightarrow> bool" where
  "to_generator GeneratorGetConfigList = True"
| "to_generator (GeneratorProgram g) = True"
| "to_generator e = False"

fun is_program :: "event \<Rightarrow> bool" where
  "is_program (GeneratorProgram g) = True"
| "is_program (SensorProgram s) = True"
| "is_program e = False"

fun is_query :: "event \<Rightarrow> bool" where
  "is_query GeneratorGetConfigList = True"
| "is_query SensorGetConfigList = True"
| "is_query e = False"

definition issued :: "event list \<Rightarrow> event list \<Rightarrow> event list" where
  "issued tr tr' = drop (length tr) tr'"

definition polls :: "sensor_program \<Rightarrow> nat \<Rightarrow> event list" where
  "polls p k = concat (replicate k [IsComplete p False, Print Waiting, Sleep 2])"

text \<open>The means the program prints for the received signal, in the order of printing.\<close>

fun rx_means :: "event list \<Rightarrow> npfloat list" where
  "rx_means [] = []"
| "rx_means (Print (P_rx d m sd) # es) = m # rx_means es"
| "rx_means (e # es) = rx_means es"

subsection \<open>The gain estimate as the specification words it\<close>

text \<open>
  Section 4.4 of the specification: every sample is converted by \<open>mw = 10^(db/10)\<close>, each
  linear series is averaged, and the linear gain is
  \<open>(mean(signal_mw) - mean(noise_mw)) / tx_power_mw\<close>.
\<close>

definition spec_mean :: "real list \<Rightarrow> real" where
  "spec_mean xs = (\<Sum>x\<leftarrow>xs. x) / real (length xs)"

definition spec_gain_linear :: "real list \<Rightarrow> real list \<Rightarrow> real \<Rightarrow> real" where
  "spec_gain_linear noise signal tx_power_dbm =
     (spec_mean (map (\<lambda>s. 10 powr (s / 10)) signal)
        - spec_mean (map (\<lambda>n. 10 powr (n / 10)) noise))
     / 10 powr (tx_power_dbm / 10)"

subsection \<open>Concrete worlds\<close>

text \<open>
  A transmitter for 2.4 to 2.5 GHz at up to 10 dBm and a sensor for 2.4 to 2.48 GHz.
  In \<open>lab_world\<close> a sensing program is complete at the first poll and the sensor reads
  10 dBm once a transmit program has been submitted and 0 dBm before. In \<open>slow_world\<close>
  a program is complete once two polls have failed. In \<open>deaf_world\<close> the sensor reads
  0 dBm whatever the transmitter does, and in \<open>shadow_world\<close> it reads less with the
  transmitter on than with it off. In \<open>mixed_world\<close> the sweeps of one measurement differ
  from each other.
\<close>

definition band_generator_cl :: generator_config_list where
  "band_generator_cl f_hz power_dbm =
     (if 2400000000 \<le> f_hz \<and> f_hz \<le> 2500000000 \<and> power_dbm \<le> 10
      then Some (TxConfig 0) else None)"

definition band_sensor_cl :: sensor_config_list where
  "band_sensor_cl start_hz stop_hz step_hz =
     (if 2400000000 \<le> start_hz \<and> stop_hz \<le> 2480000000 then Some (SweepConfig 0) else None)"

definition lab_world :: world where
  "lab_world =
     \<lparr>time_time = (\<lambda>tr. 100),
      generator_get_config_list = band_generator_cl,
      sensor_get_config_list = band_sensor_cl,
      is_complete = (\<lambda>tr p. True),
      retrieve = (\<lambda>tr p. if list_ex to_generator tr then [[10], [10]] else [[0], [0]])\<rparr>"

definition slow_world :: world where
  "slow_world =
     lab_world\<lparr>is_complete := (\<lambda>tr p. 2 \<le> length (filter (\<lambda>e. e = IsComplete p False) tr))\<rparr>"

definition deaf_world :: world where
  "deaf_world = lab_world\<lparr>retrieve := (\<lambda>tr p. [[0]])\<rparr>"

definition shadow_world :: world where
  "shadow_world =
     lab_world\<lparr>retrieve := (\<lambda>tr p. if list_ex to_generator tr then [[0]] else [[10]])\<rparr>"

definition mixed_world :: world where
  "mixed_world =
     lab_world\<lparr>retrieve :=
       (\<lambda>tr p. if list_ex to_generator tr then [[10], [0], [10]] else [[0], [10]])\<rparr>"

definition lab_pair :: NodePair where
  "lab_pair = fst (NodePair_init lab_world [])"

section \<open>Properties\<close>

subsection \<open>The polling loop\<close>

lemma polls_Suc: "polls p (Suc k) = [IsComplete p False, Print Waiting, Sleep 2] @ polls p k"
  by (simp add: polls_def)

lemma polls_Suc_right: "polls p (Suc k) = polls p k @ [IsComplete p False, Print Waiting, Sleep 2]"
  unfolding polls_def by (induction k) simp_all

lemma polls_0: "polls p 0 = []"
  by (simp add: polls_def)

lemma polls_unfold:
  "polls p (Suc 0) = [IsComplete p False, Print Waiting, Sleep 2]"
  "polls p 2 = [IsComplete p False, Print Waiting, Sleep 2,
                IsComplete p False, Print Waiting, Sleep 2]"
  by (simp_all add: polls_def numeral_2_eq_2)

lemma wait_complete_trace:
  "\<exists>k\<le>n. (\<forall>j<k. \<not> is_complete w (tr @ polls p j) p) \<and>
     (wait_complete n w p tr = (tr @ polls p k @ [IsComplete p True], True)
        \<and> is_complete w (tr @ polls p k) p
      \<or> wait_complete n w p tr = (tr @ polls p k, False) \<and> k = n)"
proof (induction n arbitrary: tr)
  case 0
  show ?case by (simp add: polls_0)
next
  case (Suc n)
  show ?case
  proof (cases "is_complete w tr p")
    case True
    then have "wait_complete (Suc n) w p tr = (tr @ polls p 0 @ [IsComplete p True], True)"
      by (simp add: polls_0)
    with True show ?thesis
      by (intro exI[of _ 0]) (simp add: polls_0)
  next
    case False
    let ?tr = "tr @ [IsComplete p False, Print Waiting, Sleep 2]"
    from Suc.IH[of ?tr] obtain k where k: "k \<le> n"
      "\<forall>j<k. \<not> is_complete w (?tr @ polls p j) p"
      "wait_complete n w p ?tr = (?tr @ polls p k @ [IsComplete p True], True)
          \<and> is_complete w (?tr @ polls p k) p
        \<or> wait_complete n w p ?tr = (?tr @ polls p k, False) \<and> k = n"
      by blast
    have step: "wait_complete (Suc n) w p tr = wait_complete n w p ?tr"
      using False by simp
    have app: "\<And>j. ?tr @ polls p j = tr @ polls p (Suc j)"
      by (simp add: polls_Suc)
    have "\<forall>j<Suc k. \<not> is_complete w (tr @ polls p j) p"
    proof (intro allI impI)
      fix j assume "j < Suc k"
      show "\<not> is_complete w (tr @ polls p j) p"
      proof (cases j)
        case 0 then show ?thesis using False by (simp add: polls_0)
      next
        case (Suc j')
        with \<open>j < Suc k\<close> have "j' < k" by simp
        with k(2) have "\<not> is_complete w (?tr @ polls p j') p" by blast
        then show ?thesis unfolding Suc app .
      qed
    qed
    moreover from k(3) have "wait_complete (Suc n) w p tr = (tr @ polls p (Suc k) @ [IsComplete p True], True)
          \<and> is_complete w (tr @ polls p (Suc k)) p
        \<or> wait_complete (Suc n) w p tr = (tr @ polls p (Suc k), False) \<and> Suc k = Suc n"
      by (simp only: step) (simp add: polls_Suc)
    ultimately show ?thesis using k(1) by (intro exI[of _ "Suc k"]) simp
  qed
qed

lemma wait_complete_first:
  assumes "\<forall>j<k. \<not> is_complete w (tr @ polls p j) p"
      and "is_complete w (tr @ polls p k) p" and "k < n"
  shows "wait_complete n w p tr = (tr @ polls p k @ [IsComplete p True], True)"
proof -
  from wait_complete_trace[of n w tr p] obtain k' where k': "k' \<le> n"
    "\<forall>j<k'. \<not> is_complete w (tr @ polls p j) p"
    "wait_complete n w p tr = (tr @ polls p k' @ [IsComplete p True], True)
        \<and> is_complete w (tr @ polls p k') p
      \<or> wait_complete n w p tr = (tr @ polls p k', False) \<and> k' = n"
    by blast
  have "\<not> k < k'" using k'(2) assms(2) by blast
  then have "k' \<le> k" by simp
  with assms(3) have "k' \<noteq> n" by simp
  with k'(3) have fin: "wait_complete n w p tr = (tr @ polls p k' @ [IsComplete p True], True)"
    and c: "is_complete w (tr @ polls p k') p" by blast+
  have "\<not> k' < k" using assms(1) c by blast
  with \<open>k' \<le> k\<close> have "k' = k" by simp
  with fin show ?thesis by simp
qed

lemma wait_complete_never:
  assumes "\<forall>j<n. \<not> is_complete w (tr @ polls p j) p"
  shows "wait_complete n w p tr = (tr @ polls p n, False)"
  using assms
proof (induction n arbitrary: tr)
  case 0
  show ?case by (simp add: polls_0)
next
  case (Suc n)
  let ?tr = "tr @ [IsComplete p False, Print Waiting, Sleep 2]"
  from Suc.prems have "\<not> is_complete w (tr @ polls p 0) p" by blast
  then have first: "\<not> is_complete w tr p" by (simp add: polls_0)
  have "\<forall>j<n. \<not> is_complete w (?tr @ polls p j) p"
  proof (intro allI impI)
    fix j assume "j < n"
    then have "Suc j < Suc n" by simp
    with Suc.prems have "\<not> is_complete w (tr @ polls p (Suc j)) p" by blast
    then show "\<not> is_complete w (?tr @ polls p j) p" by (simp add: polls_Suc)
  qed
  from Suc.IH[OF this] have "wait_complete n w p ?tr = (?tr @ polls p n, False)" .
  with first show ?case by (simp add: polls_Suc)
qed

subsection \<open>The traces of measure\<close>

lemma measure_tx_absent:
  assumes "get_tx_config (generator_cl self) f p = None"
  shows "measure_np fuel w self tr f (Some p) =
           (tr, Raised (Exception ''Node can not scan specified frequency range.''))"
  using assms by (simp add: measure_np_def)

lemma measure_sweep_absent_silent:
  assumes "get_sweep_config (sensor_cl self) f f 400000 = None"
  shows "measure_np fuel w self tr f None =
           (tr, Raised (Exception ''Node can not scan specified frequency range.''))"
  using assms by (simp add: measure_np_def)

lemma measure_sweep_absent_tx:
  assumes "get_tx_config (generator_cl self) f p = Some txc"
      and "get_sweep_config (sensor_cl self) f f 400000 = None"
  shows "measure_np fuel w self tr f (Some p) =
           (tr @ [GeneratorProgram (SignalGeneratorProgram txc (time_time w tr + 1) 14)],
            Raised (Exception ''Node can not scan specified frequency range.''))"
  using assms by (simp add: measure_np_def)

text \<open>The part of \<open>measure_np\<close> after the sensing program has been built.\<close>

lemma measure_sensing:
  assumes sw: "get_sweep_config (sensor_cl self) f f 400000 = Some swc"
      and tx: "ptx = None \<and> g = [] \<or>
               (\<exists>p txc. ptx = Some p \<and> get_tx_config (generator_cl self) f p = Some txc \<and>
                  g = [GeneratorProgram (SignalGeneratorProgram txc (time_time w tr + 1) 14)])"
      and sp: "sp = SpectrumSensorProgram swc (time_time w tr + 3) 10 1"
      and pre: "pre = tr @ g @ [SensorProgram sp]"
  shows "measure_np fuel w self tr f ptx =
           (case wait_complete fuel w sp pre of
              (tr3, False) \<Rightarrow> (tr3, Running)
            | (tr3, True) \<Rightarrow>
                (tr3 @ [Retrieve sp (retrieve w tr3 sp)],
                 case first_column (retrieve w tr3 sp) of
                   Inl e \<Rightarrow> Raised e | Inr v \<Rightarrow> Returned v))"
  using tx sw by (auto simp: measure_np_def sp pre Let_def split: prod.splits bool.splits)

lemma measure_trace:
  assumes sw: "get_sweep_config (sensor_cl self) f f 400000 = Some swc"
      and tx: "ptx = None \<and> g = [] \<or>
               (\<exists>p txc. ptx = Some p \<and> get_tx_config (generator_cl self) f p = Some txc \<and>
                  g = [GeneratorProgram (SignalGeneratorProgram txc (time_time w tr + 1) 14)])"
      and sp: "sp = SpectrumSensorProgram swc (time_time w tr + 3) 10 1"
      and pre: "pre = tr @ g @ [SensorProgram sp]"
  shows "\<exists>k\<le>fuel. (\<forall>j<k. \<not> is_complete w (pre @ polls sp j) sp) \<and>
           (is_complete w (pre @ polls sp k) sp \<and>
            measure_np fuel w self tr f ptx =
              (pre @ polls sp k @
                 [IsComplete sp True,
                  Retrieve sp (retrieve w (pre @ polls sp k @ [IsComplete sp True]) sp)],
               case first_column (retrieve w (pre @ polls sp k @ [IsComplete sp True]) sp) of
                 Inl e \<Rightarrow> Raised e | Inr v \<Rightarrow> Returned v)
            \<or> k = fuel \<and> measure_np fuel w self tr f ptx = (pre @ polls sp k, Running))"
proof -
  from wait_complete_trace[of fuel w pre sp] obtain k where k: "k \<le> fuel"
    "\<forall>j<k. \<not> is_complete w (pre @ polls sp j) sp"
    "wait_complete fuel w sp pre = (pre @ polls sp k @ [IsComplete sp True], True)
        \<and> is_complete w (pre @ polls sp k) sp
      \<or> wait_complete fuel w sp pre = (pre @ polls sp k, False) \<and> k = fuel"
    by blast
  from k(3) have "is_complete w (pre @ polls sp k) sp \<and>
            measure_np fuel w self tr f ptx =
              (pre @ polls sp k @
                 [IsComplete sp True,
                  Retrieve sp (retrieve w (pre @ polls sp k @ [IsComplete sp True]) sp)],
               case first_column (retrieve w (pre @ polls sp k @ [IsComplete sp True]) sp) of
                 Inl e \<Rightarrow> Raised e | Inr v \<Rightarrow> Returned v)
            \<or> k = fuel \<and> measure_np fuel w self tr f ptx = (pre @ polls sp k, Running)"
    by (auto simp: measure_sensing[OF sw tx sp pre])
  with k(1,2) show ?thesis by blast
qed

lemma set_polls: "set (polls p k) \<subseteq> {IsComplete p False, Print Waiting, Sleep 2}"
  unfolding polls_def by (induction k) auto

lemma filter_program_polls: "filter is_program (polls p k) = []"
  using set_polls[of p k] by (auto simp: filter_empty_conv)

lemma generator_polls: "\<not> list_ex to_generator (polls p k)"
  using set_polls[of p k] by (auto simp: list_ex_iff)

lemma query_polls: "filter is_query (polls p k) = []"
  using set_polls[of p k] by (auto simp: filter_empty_conv)

lemma issued_append: "issued tr (tr @ xs) = xs"
  by (simp add: issued_def)

lemma issued_self: "issued tr tr = []"
  by (simp add: issued_def)

lemma measure_issued:
  assumes sw: "get_sweep_config (sensor_cl self) f f 400000 = Some swc"
      and tx: "ptx = None \<and> g = [] \<or>
               (\<exists>p txc. ptx = Some p \<and> get_tx_config (generator_cl self) f p = Some txc \<and>
                  g = [GeneratorProgram (SignalGeneratorProgram txc (time_time w tr + 1) 14)])"
      and sp: "sp = SpectrumSensorProgram swc (time_time w tr + 3) 10 1"
  shows "\<exists>k d. issued tr (fst (measure_np fuel w self tr f ptx)) =
                  g @ [SensorProgram sp] @ polls sp k @ [IsComplete sp True, Retrieve sp d]
               \<or> issued tr (fst (measure_np fuel w self tr f ptx)) =
                  g @ [SensorProgram sp] @ polls sp k"
proof -
  define pre where "pre = tr @ g @ [SensorProgram sp]"
  from measure_trace[OF sw tx sp pre_def, of fuel] obtain k where
    "measure_np fuel w self tr f ptx =
       (pre @ polls sp k @
          [IsComplete sp True,
           Retrieve sp (retrieve w (pre @ polls sp k @ [IsComplete sp True]) sp)],
        case first_column (retrieve w (pre @ polls sp k @ [IsComplete sp True]) sp) of
          Inl e \<Rightarrow> Raised e | Inr v \<Rightarrow> Returned v)
     \<or> measure_np fuel w self tr f ptx = (pre @ polls sp k, Running)"
    by blast
  then show ?thesis
  proof
    assume "measure_np fuel w self tr f ptx =
       (pre @ polls sp k @
          [IsComplete sp True,
           Retrieve sp (retrieve w (pre @ polls sp k @ [IsComplete sp True]) sp)],
        case first_column (retrieve w (pre @ polls sp k @ [IsComplete sp True]) sp) of
          Inl e \<Rightarrow> Raised e | Inr v \<Rightarrow> Returned v)"
    then have "issued tr (fst (measure_np fuel w self tr f ptx)) =
       g @ [SensorProgram sp] @ polls sp k @
          [IsComplete sp True,
           Retrieve sp (retrieve w (pre @ polls sp k @ [IsComplete sp True]) sp)]"
      by (simp add: pre_def issued_def)
    then show ?thesis by blast
  next
    assume "measure_np fuel w self tr f ptx = (pre @ polls sp k, Running)"
    then have "issued tr (fst (measure_np fuel w self tr f ptx)) =
       g @ [SensorProgram sp] @ polls sp k"
      by (simp add: pre_def issued_def)
    then show ?thesis by blast
  qed
qed

lemma measure_programs:
  assumes sw: "get_sweep_config (sensor_cl self) f f 400000 = Some swc"
      and tx: "ptx = None \<and> g = [] \<or>
               (\<exists>p txc. ptx = Some p \<and> get_tx_config (generator_cl self) f p = Some txc \<and>
                  g = [GeneratorProgram (SignalGeneratorProgram txc (time_time w tr + 1) 14)])"
  shows "filter is_program (issued tr (fst (measure_np fuel w self tr f ptx))) =
           g @ [SensorProgram (SpectrumSensorProgram swc (time_time w tr + 3) 10 1)]"
proof -
  have g: "filter is_program g = g" using tx by auto
  from measure_issued[OF sw tx refl, of fuel] show ?thesis
    by (auto simp: filter_program_polls g)
qed

lemma rx_means_append: "rx_means (xs @ ys) = rx_means xs @ rx_means ys"
  by (induction xs rule: rx_means.induct) simp_all

lemma rx_means_polls: "rx_means (polls p k) = []"
  by (induction k) (simp_all add: polls_0 polls_Suc)

text \<open>The shape of every trace of \<open>measure_np\<close>, whatever the lookups return.\<close>

lemma measure_shape:
  "\<exists>g xs. fst (measure_np fuel w self tr f ptx) = tr @ g @ xs \<and>
     (g = [] \<or> (\<exists>c. ptx \<noteq> None \<and> g = [GeneratorProgram c])) \<and>
     (xs = [] \<or>
      (\<exists>sp k. xs = SensorProgram sp # polls sp k) \<or>
      (\<exists>sp k d. xs = SensorProgram sp # polls sp k @ [IsComplete sp True, Retrieve sp d]))"
proof (cases "get_sweep_config (sensor_cl self) f f 400000")
  case None
  show ?thesis
  proof (cases ptx)
    case ptx: None
    have "fst (measure_np fuel w self tr f ptx) = tr @ [] @ []"
      by (simp add: ptx measure_sweep_absent_silent[OF None])
    then show ?thesis by blast
  next
    case (Some p)
    show ?thesis
    proof (cases "get_tx_config (generator_cl self) f p")
      case tx: None
      have "fst (measure_np fuel w self tr f ptx) = tr @ [] @ []"
        by (simp add: Some measure_tx_absent[OF tx])
      then show ?thesis by blast
    next
      case tx: (Some txc)
      have "fst (measure_np fuel w self tr f ptx) =
              tr @ [GeneratorProgram (SignalGeneratorProgram txc (time_time w tr + 1) 14)] @ []"
        by (simp add: Some measure_sweep_absent_tx[OF tx None])
      then show ?thesis using Some by blast
    qed
  qed
next
  case sw: (Some swc)
  define sp where "sp = SpectrumSensorProgram swc (time_time w tr + 3) 10 1"
  have found: "\<exists>xs. fst (measure_np fuel w self tr f ptx) = tr @ g @ xs \<and>
     (xs = [] \<or>
      (\<exists>sp k. xs = SensorProgram sp # polls sp k) \<or>
      (\<exists>sp k d. xs = SensorProgram sp # polls sp k @ [IsComplete sp True, Retrieve sp d]))"
    if tx: "ptx = None \<and> g = [] \<or>
               (\<exists>p txc. ptx = Some p \<and> get_tx_config (generator_cl self) f p = Some txc \<and>
                  g = [GeneratorProgram (SignalGeneratorProgram txc (time_time w tr + 1) 14)])"
    for g
  proof -
    from measure_trace[OF sw tx sp_def refl, of fuel] obtain k where
      "measure_np fuel w self tr f ptx =
         ((tr @ g @ [SensorProgram sp]) @ polls sp k @
            [IsComplete sp True,
             Retrieve sp (retrieve w ((tr @ g @ [SensorProgram sp]) @ polls sp k @ [IsComplete sp True]) sp)],
          case first_column (retrieve w ((tr @ g @ [SensorProgram sp]) @ polls sp k @ [IsComplete sp True]) sp) of
            Inl e \<Rightarrow> Raised e | Inr v \<Rightarrow> Returned v)
       \<or> measure_np fuel w self tr f ptx = ((tr @ g @ [SensorProgram sp]) @ polls sp k, Running)"
      by blast
    then show ?thesis
    proof
      assume "measure_np fuel w self tr f ptx =
         ((tr @ g @ [SensorProgram sp]) @ polls sp k @
            [IsComplete sp True,
             Retrieve sp (retrieve w ((tr @ g @ [SensorProgram sp]) @ polls sp k @ [IsComplete sp True]) sp)],
          case first_column (retrieve w ((tr @ g @ [SensorProgram sp]) @ polls sp k @ [IsComplete sp True]) sp) of
            Inl e \<Rightarrow> Raised e | Inr v \<Rightarrow> Returned v)"
      then have "fst (measure_np fuel w self tr f ptx) =
          tr @ g @ (SensorProgram sp # polls sp k @ [IsComplete sp True,
             Retrieve sp (retrieve w ((tr @ g @ [SensorProgram sp]) @ polls sp k @ [IsComplete sp True]) sp)])"
        by simp
      then show ?thesis by blast
    next
      assume "measure_np fuel w self tr f ptx = ((tr @ g @ [SensorProgram sp]) @ polls sp k, Running)"
      then have "fst (measure_np fuel w self tr f ptx) = tr @ g @ (SensorProgram sp # polls sp k)"
        by simp
      then show ?thesis by blast
    qed
  qed
  show ?thesis
  proof (cases ptx)
    case None
    from found[of "[]"] None show ?thesis by blast
  next
    case (Some p)
    show ?thesis
    proof (cases "get_tx_config (generator_cl self) f p")
      case tx: None
      have "fst (measure_np fuel w self tr f ptx) = tr @ [] @ []"
        by (simp add: Some measure_tx_absent[OF tx])
      then show ?thesis by blast
    next
      case tx: (Some txc)
      from found[of "[GeneratorProgram (SignalGeneratorProgram txc (time_time w tr + 1) 14)]"]
        Some tx
      obtain xs where "fst (measure_np fuel w self tr f ptx) =
          tr @ [GeneratorProgram (SignalGeneratorProgram txc (time_time w tr + 1) 14)] @ xs"
        "xs = [] \<or>
          (\<exists>sp k. xs = SensorProgram sp # polls sp k) \<or>
          (\<exists>sp k d. xs = SensorProgram sp # polls sp k @ [IsComplete sp True, Retrieve sp d])"
        by blast
      then show ?thesis using Some by blast
    qed
  qed
qed

lemma measure_extends:
  "\<exists>xs. fst (measure_np fuel w self tr f ptx) = tr @ xs \<and>
     filter is_query xs = [] \<and> rx_means xs = [] \<and>
     (ptx = None \<longrightarrow> \<not> list_ex to_generator xs)"
proof -
  from measure_shape[of fuel w self tr f ptx] obtain g xs where
    eq: "fst (measure_np fuel w self tr f ptx) = tr @ g @ xs" and
    g: "g = [] \<or> (\<exists>c. ptx \<noteq> None \<and> g = [GeneratorProgram c])" and
    xs: "xs = [] \<or>
      (\<exists>sp k. xs = SensorProgram sp # polls sp k) \<or>
      (\<exists>sp k d. xs = SensorProgram sp # polls sp k @ [IsComplete sp True, Retrieve sp d])"
    by blast
  from g have g1: "filter is_query g = []" "rx_means g = []"
    "ptx = None \<longrightarrow> \<not> list_ex to_generator g"
    by auto
  from xs have x1: "filter is_query xs = []" "rx_means xs = []" "\<not> list_ex to_generator xs"
    using generator_polls by (auto simp: query_polls rx_means_append rx_means_polls)
  from g1 x1 have "filter is_query (g @ xs) = []" "rx_means (g @ xs) = []"
    "ptx = None \<longrightarrow> \<not> list_ex to_generator (g @ xs)"
    by (simp_all add: rx_means_append)
  with eq show ?thesis by (intro exI[of _ "g @ xs"]) simp
qed

text \<open>A retrieval is the last event of a call and follows a successful poll.\<close>

lemma unique_last_split:
  assumes "e \<notin> set as" and "as @ [e] = xs @ e # ys"
  shows "xs = as \<and> ys = []"
  using assms
proof (induction as arbitrary: xs)
  case Nil
  then show ?case by (cases xs) simp_all
next
  case (Cons a as)
  show ?case
  proof (cases xs)
    case Nil
    with Cons.prems show ?thesis by simp
  next
    case (Cons x xs')
    with Cons.prems have "a = x" "as @ [e] = xs' @ e # ys" "e \<notin> set as" by simp_all
    with Cons.IH[of xs'] Cons show ?thesis by simp
  qed
qed

lemma retrieve_last:
  assumes "issued tr (fst (measure_np fuel w self tr f ptx)) = xs @ Retrieve q d # ys"
  shows "ys = [] \<and> (\<exists>zs. xs = zs @ [IsComplete q True])"
proof -
  from measure_shape[of fuel w self tr f ptx] obtain g es where
    eq: "fst (measure_np fuel w self tr f ptx) = tr @ g @ es" and
    g: "g = [] \<or> (\<exists>c. ptx \<noteq> None \<and> g = [GeneratorProgram c])" and
    es: "es = [] \<or>
      (\<exists>sp k. es = SensorProgram sp # polls sp k) \<or>
      (\<exists>sp k d. es = SensorProgram sp # polls sp k @ [IsComplete sp True, Retrieve sp d])"
    by blast
  from eq assms have split: "g @ es = xs @ Retrieve q d # ys"
    by (simp add: issued_def)
  have nog: "Retrieve q d \<notin> set g"
    using g by auto
  have nop: "Retrieve q d \<notin> set (polls sp k)" for sp k
    using set_polls[of sp k] by auto
  from split have "Retrieve q d \<in> set (g @ es)"
    by simp
  with nog have mem: "Retrieve q d \<in> set es"
    by simp
  from es show ?thesis
  proof (elim disjE exE)
    assume "es = []"
    with mem show ?thesis by simp
  next
    fix sp k assume "es = SensorProgram sp # polls sp k"
    with mem nop[of sp k] show ?thesis by simp
  next
    fix sp k d' assume es': "es = SensorProgram sp # polls sp k @ [IsComplete sp True, Retrieve sp d']"
    with mem nop[of sp k] have qd: "sp = q" "d' = d" by simp_all
    let ?as = "g @ SensorProgram q # polls q k @ [IsComplete q True]"
    have a1: "Retrieve q d \<notin> set ?as"
      using nog nop[of q k] by simp
    have a2: "?as @ [Retrieve q d] = xs @ Retrieve q d # ys"
      using split by (simp add: es' qd)
    from unique_last_split[OF a1 a2] have "xs = ?as" "ys = []" by simp_all
    then show ?thesis
      by (intro conjI exI[of _ "g @ SensorProgram q # polls q k"]) simp_all
  qed
qed

subsection \<open>The traces of get_channel_gain\<close>

lemma first_column_nonempty: "first_column rows = Inr v \<Longrightarrow> v \<noteq> []"
  by (auto simp: first_column_def split: list.splits if_splits)

lemma measure_returned_nonempty:
  assumes "measure_np fuel w self tr f ptx = (tr', Returned v)"
  shows "v \<noteq> []"
  using assms first_column_nonempty
  by (auto simp: measure_np_def Let_def
      split: option.splits sum.splits prod.splits bool.splits)

lemma get_channel_gain_returned:
  assumes "measure_np fuel w self tr f None = (tr1, Returned noise)"
      and "measure_np fuel w self tr1 f (Some p) = (tr2, Returned signal)"
  shows "get_channel_gain fuel w self tr f p =
           (tr2 @
              [Print (P_noise (mw_to_db (np_mean (map db_to_mw noise)))
                        (np_mean (map db_to_mw noise)) (np_std (map db_to_mw noise))),
               Print (P_rx (mw_to_db (np_mean (map db_to_mw signal)))
                        (np_mean (map db_to_mw signal)) (np_std (map db_to_mw signal))),
               Print (H_dB (mw_to_db (np_divide
                        (np_minus (np_mean (map db_to_mw signal)) (np_mean (map db_to_mw noise)))
                        (db_to_mw p))))],
            Returned (mw_to_db (np_divide
                        (np_minus (np_mean (map db_to_mw signal)) (np_mean (map db_to_mw noise)))
                        (db_to_mw p))))"
  using assms by (simp add: get_channel_gain_def Let_def)

lemma get_channel_gain_extends:
  "\<exists>xs. fst (get_channel_gain fuel w self tr f p) = tr @ xs \<and> filter is_query xs = []"
proof -
  obtain tr1 o1 where m1: "measure_np fuel w self tr f None = (tr1, o1)"
    by (cases "measure_np fuel w self tr f None")
  from measure_extends[of fuel w self tr f None] m1 obtain xs1 where
    x1: "tr1 = tr @ xs1" "filter is_query xs1 = []"
    by auto
  show ?thesis
  proof (cases o1)
    case (Raised e)
    with m1 x1 show ?thesis by (simp add: get_channel_gain_def)
  next
    case Running
    with m1 x1 show ?thesis by (simp add: get_channel_gain_def)
  next
    case (Returned noise)
    obtain tr2 o2 where m2: "measure_np fuel w self tr1 f (Some p) = (tr2, o2)"
      by (cases "measure_np fuel w self tr1 f (Some p)")
    from measure_extends[of fuel w self tr1 f "Some p"] m2 obtain xs2 where
      x2: "tr2 = tr1 @ xs2" "filter is_query xs2 = []"
      by auto
    show ?thesis
    proof (cases o2)
      case (Raised e)
      with m1 m2 Returned x1 x2 show ?thesis by (simp add: get_channel_gain_def)
    next
      case Running
      with m1 m2 Returned x1 x2 show ?thesis by (simp add: get_channel_gain_def)
    next
      case r2: (Returned signal)
      from get_channel_gain_returned[OF m1[unfolded Returned] m2[unfolded r2]] x1 x2
      show ?thesis by simp
    qed
  qed
qed

lemma wait_complete_catalogs:
  "wait_complete n (w\<lparr>generator_get_config_list := gcl, sensor_get_config_list := scl\<rparr>) p tr =
   wait_complete n w p tr"
  by (induction n arbitrary: tr) (simp_all add: Let_def)

lemma measure_catalogs:
  "measure_np fuel (w\<lparr>generator_get_config_list := gcl, sensor_get_config_list := scl\<rparr>)
     self tr f ptx = measure_np fuel w self tr f ptx"
  by (simp add: measure_np_def wait_complete_catalogs Let_def
      split: option.splits sum.splits)

lemma get_channel_gain_catalogs:
  "get_channel_gain fuel (w\<lparr>generator_get_config_list := gcl, sensor_get_config_list := scl\<rparr>)
     self tr f p = get_channel_gain fuel w self tr f p"
  by (simp add: get_channel_gain_def measure_catalogs split: prod.splits outcome.splits)

subsection \<open>The arithmetic of the estimate\<close>

lemma db_to_mw_pos: "0 < db_to_mw x"
  by (simp add: db_to_mw_def)

lemma db_to_mw_strict_mono: "x < y \<Longrightarrow> db_to_mw x < db_to_mw y"
  by (simp add: db_to_mw_def)

lemma map_db_to_mw: "map db_to_mw xs = map (\<lambda>s. 10 powr (s / 10)) xs"
  by (simp add: db_to_mw_def)

lemma np_mean_nonempty: "xs \<noteq> [] \<Longrightarrow> np_mean (map db_to_mw xs) = Fin (spec_mean (map db_to_mw xs))"
  by (simp add: np_mean_def spec_mean_def)

lemma h_mean_value:
  assumes "noise \<noteq> []" and "signal \<noteq> []"
  shows "np_divide (np_minus (np_mean (map db_to_mw signal)) (np_mean (map db_to_mw noise)))
           (db_to_mw p) = Fin (spec_gain_linear noise signal p)"
proof -
  have "db_to_mw p \<noteq> 0"
    using db_to_mw_pos[of p] by simp
  then show ?thesis
    using assms
    by (simp add: np_mean_nonempty spec_gain_linear_def map_db_to_mw[symmetric])
       (simp add: db_to_mw_def)
qed

lemma mw_to_db_Fin:
  "mw_to_db (Fin x) = (if 0 < x then Fin (10 * log 10 x) else if x = 0 then NegInf else NaN)"
  by (simp add: mw_to_db_def)

lemma sum_db_to_mw_mono:
  assumes "list_all2 (<) s s'"
  shows "sum_list (map db_to_mw s) \<le> sum_list (map db_to_mw s') \<and>
         (s \<noteq> [] \<longrightarrow> sum_list (map db_to_mw s) < sum_list (map db_to_mw s'))"
  using assms
proof (induction rule: list_all2_induct)
  case Nil
  show ?case by simp
next
  case (Cons x xs y ys)
  from Cons.hyps(1) have "db_to_mw x < db_to_mw y"
    by (rule db_to_mw_strict_mono)
  with Cons.IH show ?case
    by simp
qed

lemma spec_mean_strict_mono:
  assumes "list_all2 (<) s s'" and "s \<noteq> []"
  shows "spec_mean (map db_to_mw s) < spec_mean (map db_to_mw s')"
proof -
  from assms(1) have len: "length s' = length s"
    by (simp add: list_all2_lengthD)
  from assms(2) have pos: "0 < real (length s)"
    by simp
  from sum_db_to_mw_mono[OF assms(1)] assms(2)
  have "sum_list (map db_to_mw s) < sum_list (map db_to_mw s')"
    by blast
  then show ?thesis
    using pos by (simp add: spec_mean_def len divide_strict_right_mono)
qed

subsection \<open>The concrete worlds\<close>

lemma lab_pair_simps:
  "generator_cl lab_pair = band_generator_cl" "sensor_cl lab_pair = band_sensor_cl"
  by (simp_all add: lab_pair_def NodePair_init_def lab_world_def)

lemma lab_lookups:
  "get_tx_config band_generator_cl 2425000000 0 = Some (TxConfig 0)"
  "get_tx_config band_generator_cl 2425000000 10 = Some (TxConfig 0)"
  "get_tx_config band_generator_cl 2425000000 20 = None"
  "get_tx_config band_generator_cl 2490000000 0 = Some (TxConfig 0)"
  "get_sweep_config band_sensor_cl 2425000000 2425000000 400000 = Some (SweepConfig 0)"
  "get_sweep_config band_sensor_cl 2490000000 2490000000 400000 = None"
  by (simp_all add: get_tx_config_def get_sweep_config_def band_generator_cl_def
      band_sensor_cl_def)

lemma lab_measure_noise:
  "measure_np 1 lab_world lab_pair [] 2425000000 None =
     ([SensorProgram (SpectrumSensorProgram (SweepConfig 0) 103 10 1),
       IsComplete (SpectrumSensorProgram (SweepConfig 0) 103 10 1) True,
       Retrieve (SpectrumSensorProgram (SweepConfig 0) 103 10 1) [[0], [0]]],
      Returned [0, 0])"
  by (simp add: measure_np_def lab_pair_simps lab_lookups lab_world_def first_column_def
      Let_def)

lemma lab_measure_signal:
  "measure_np 1 lab_world lab_pair
     [SensorProgram (SpectrumSensorProgram (SweepConfig 0) 103 10 1),
      IsComplete (SpectrumSensorProgram (SweepConfig 0) 103 10 1) True,
      Retrieve (SpectrumSensorProgram (SweepConfig 0) 103 10 1) [[0], [0]]]
     2425000000 (Some 0) =
     ([SensorProgram (SpectrumSensorProgram (SweepConfig 0) 103 10 1),
       IsComplete (SpectrumSensorProgram (SweepConfig 0) 103 10 1) True,
       Retrieve (SpectrumSensorProgram (SweepConfig 0) 103 10 1) [[0], [0]],
       GeneratorProgram (SignalGeneratorProgram (TxConfig 0) 101 14),
       SensorProgram (SpectrumSensorProgram (SweepConfig 0) 103 10 1),
       IsComplete (SpectrumSensorProgram (SweepConfig 0) 103 10 1) True,
       Retrieve (SpectrumSensorProgram (SweepConfig 0) 103 10 1) [[10], [10]]],
      Returned [10, 10])"
  by (simp add: measure_np_def lab_pair_simps lab_lookups lab_world_def first_column_def
      Let_def)

lemma deaf_measure_noise:
  "measure_np 1 deaf_world lab_pair [] 2425000000 None =
     ([SensorProgram (SpectrumSensorProgram (SweepConfig 0) 103 10 1),
       IsComplete (SpectrumSensorProgram (SweepConfig 0) 103 10 1) True,
       Retrieve (SpectrumSensorProgram (SweepConfig 0) 103 10 1) [[0]]],
      Returned [0])"
  by (simp add: measure_np_def lab_pair_simps lab_lookups deaf_world_def lab_world_def
      first_column_def Let_def)

lemma deaf_measure_signal:
  assumes "p = 0 \<or> p = 10"
  shows "measure_np 1 deaf_world lab_pair
     [SensorProgram (SpectrumSensorProgram (SweepConfig 0) 103 10 1),
      IsComplete (SpectrumSensorProgram (SweepConfig 0) 103 10 1) True,
      Retrieve (SpectrumSensorProgram (SweepConfig 0) 103 10 1) [[0]]]
     2425000000 (Some p) =
     ([SensorProgram (SpectrumSensorProgram (SweepConfig 0) 103 10 1),
       IsComplete (SpectrumSensorProgram (SweepConfig 0) 103 10 1) True,
       Retrieve (SpectrumSensorProgram (SweepConfig 0) 103 10 1) [[0]],
       GeneratorProgram (SignalGeneratorProgram (TxConfig 0) 101 14),
       SensorProgram (SpectrumSensorProgram (SweepConfig 0) 103 10 1),
       IsComplete (SpectrumSensorProgram (SweepConfig 0) 103 10 1) True,
       Retrieve (SpectrumSensorProgram (SweepConfig 0) 103 10 1) [[0]]],
      Returned [0])"
proof -
  have tx: "get_tx_config band_generator_cl 2425000000 p = Some (TxConfig 0)"
    using assms lab_lookups by auto
  show ?thesis
    by (simp add: measure_np_def lab_pair_simps tx deaf_world_def lab_world_def
        lab_lookups first_column_def Let_def)
qed

lemma deaf_gain:
  assumes "p = 0 \<or> p = 10"
  shows "get_channel_gain 1 deaf_world lab_pair [] 2425000000 p =
     ([SensorProgram (SpectrumSensorProgram (SweepConfig 0) 103 10 1),
       IsComplete (SpectrumSensorProgram (SweepConfig 0) 103 10 1) True,
       Retrieve (SpectrumSensorProgram (SweepConfig 0) 103 10 1) [[0]],
       GeneratorProgram (SignalGeneratorProgram (TxConfig 0) 101 14),
       SensorProgram (SpectrumSensorProgram (SweepConfig 0) 103 10 1),
       IsComplete (SpectrumSensorProgram (SweepConfig 0) 103 10 1) True,
       Retrieve (SpectrumSensorProgram (SweepConfig 0) 103 10 1) [[0]],
       Print (P_noise (Fin 0) (Fin 1) (Fin 0)),
       Print (P_rx (Fin 0) (Fin 1) (Fin 0)),
       Print (H_dB NegInf)],
      Returned NegInf)"
proof -
  have "db_to_mw p \<noteq> 0"
    using db_to_mw_pos[of p] by simp
  have z: "db_to_mw 0 = 1"
    by (simp add: db_to_mw_def)
  from get_channel_gain_returned[OF deaf_measure_noise deaf_measure_signal[OF assms]]
    \<open>db_to_mw p \<noteq> 0\<close>
  show ?thesis
    by (simp add: np_mean_def np_std_def mw_to_db_def z)
qed

lemma shadow_measure_noise:
  "measure_np 1 shadow_world lab_pair [] 2425000000 None =
     ([SensorProgram (SpectrumSensorProgram (SweepConfig 0) 103 10 1),
       IsComplete (SpectrumSensorProgram (SweepConfig 0) 103 10 1) True,
       Retrieve (SpectrumSensorProgram (SweepConfig 0) 103 10 1) [[10]]],
      Returned [10])"
  by (simp add: measure_np_def lab_pair_simps lab_lookups shadow_world_def lab_world_def
      first_column_def Let_def)

lemma shadow_measure_signal:
  "measure_np 1 shadow_world lab_pair
     [SensorProgram (SpectrumSensorProgram (SweepConfig 0) 103 10 1),
      IsComplete (SpectrumSensorProgram (SweepConfig 0) 103 10 1) True,
      Retrieve (SpectrumSensorProgram (SweepConfig 0) 103 10 1) [[10]]]
     2425000000 (Some 0) =
     ([SensorProgram (SpectrumSensorProgram (SweepConfig 0) 103 10 1),
       IsComplete (SpectrumSensorProgram (SweepConfig 0) 103 10 1) True,
       Retrieve (SpectrumSensorProgram (SweepConfig 0) 103 10 1) [[10]],
       GeneratorProgram (SignalGeneratorProgram (TxConfig 0) 101 14),
       SensorProgram (SpectrumSensorProgram (SweepConfig 0) 103 10 1),
       IsComplete (SpectrumSensorProgram (SweepConfig 0) 103 10 1) True,
       Retrieve (SpectrumSensorProgram (SweepConfig 0) 103 10 1) [[0]]],
      Returned [0])"
  by (simp add: measure_np_def lab_pair_simps lab_lookups shadow_world_def lab_world_def
      first_column_def Let_def)

lemma mixed_measure_noise:
  "measure_np 1 mixed_world lab_pair [] 2425000000 None =
     ([SensorProgram (SpectrumSensorProgram (SweepConfig 0) 103 10 1),
       IsComplete (SpectrumSensorProgram (SweepConfig 0) 103 10 1) True,
       Retrieve (SpectrumSensorProgram (SweepConfig 0) 103 10 1) [[0], [10]]],
      Returned [0, 10])"
  by (simp add: measure_np_def lab_pair_simps lab_lookups mixed_world_def lab_world_def
      first_column_def Let_def)

lemma mixed_measure_signal:
  "measure_np 1 mixed_world lab_pair
     [SensorProgram (SpectrumSensorProgram (SweepConfig 0) 103 10 1),
      IsComplete (SpectrumSensorProgram (SweepConfig 0) 103 10 1) True,
      Retrieve (SpectrumSensorProgram (SweepConfig 0) 103 10 1) [[0], [10]]]
     2425000000 (Some 0) =
     ([SensorProgram (SpectrumSensorProgram (SweepConfig 0) 103 10 1),
       IsComplete (SpectrumSensorProgram (SweepConfig 0) 103 10 1) True,
       Retrieve (SpectrumSensorProgram (SweepConfig 0) 103 10 1) [[0], [10]],
       GeneratorProgram (SignalGeneratorProgram (TxConfig 0) 101 14),
       SensorProgram (SpectrumSensorProgram (SweepConfig 0) 103 10 1),
       IsComplete (SpectrumSensorProgram (SweepConfig 0) 103 10 1) True,
       Retrieve (SpectrumSensorProgram (SweepConfig 0) 103 10 1) [[10], [0], [10]]],
      Returned [10, 0, 10])"
  by (simp add: measure_np_def lab_pair_simps lab_lookups mixed_world_def lab_world_def
      first_column_def Let_def)

subsection \<open>Failing lookups\<close>

text \<open>
  Claim C2 as stated fails. In \<open>lab_world\<close> the sensor cannot scan 2.49 GHz but the
  transmitter can send there: \<open>measure\<close> raises the exception of line 61, and the
  transmit program of line 53 has been submitted by then.
\<close>

theorem rx_lookup_absent_counterexample:
  "get_sweep_config (sensor_cl lab_pair) 2490000000 2490000000 400000 = None \<and>
   snd (measure_np 1 lab_world lab_pair [] 2490000000 (Some 0)) =
     Raised (Exception ''Node can not scan specified frequency range.'') \<and>
   filter is_program (issued [] (fst (measure_np 1 lab_world lab_pair [] 2490000000 (Some 0)))) =
     [GeneratorProgram (SignalGeneratorProgram (TxConfig 0) 101 14)]"
  by (simp add: measure_np_def lab_pair_simps lab_lookups issued_def lab_world_def)

text \<open>
  Claim C2, amended. Whenever the transmit lookup (made only when a transmit power is
  given) or the sensing lookup returns \<open>None\<close>, \<open>measure\<close> raises
  \<^verbatim>\<open>Exception("Node can not scan specified frequency range.")\<close>, the error the program
  uses for a capability mismatch, and no program is ever submitted to the sensing node.
  The events issued by the call are: none when the transmit power is absent or the
  transmit lookup returns \<open>None\<close>; the transmit program alone when the transmit lookup
  succeeded and the sensing lookup returned \<open>None\<close>.
\<close>

theorem lookup_absent_raises:
  assumes "ptx = Some p \<and> get_tx_config (generator_cl self) f p = None
           \<or> get_sweep_config (sensor_cl self) f f 400000 = None"
  shows "measure_np fuel w self tr f ptx =
           (tr @ (case ptx of
                    None \<Rightarrow> []
                  | Some q \<Rightarrow>
                      (case get_tx_config (generator_cl self) f q of
                         None \<Rightarrow> []
                       | Some c \<Rightarrow>
                           [GeneratorProgram
                              (SignalGeneratorProgram c (time_time w tr + 1) 14)])),
            Raised (Exception ''Node can not scan specified frequency range.''))"
  using assms
  by (auto simp: measure_tx_absent measure_sweep_absent_silent measure_sweep_absent_tx
      split: option.splits)

text \<open>Witness for C2: 20 dBm is more than the transmitter of \<open>lab_world\<close> offers.\<close>

theorem lookup_absent_raises_witness:
  "get_tx_config (generator_cl lab_pair) 2425000000 20 = None \<and>
   measure_np 1 lab_world lab_pair [] 2425000000 (Some 20) =
     ([], Raised (Exception ''Node can not scan specified frequency range.''))"
proof -
  have h: "get_tx_config (generator_cl lab_pair) 2425000000 20 = None"
    by (simp add: lab_pair_simps lab_lookups)
  then have "Some 20 = Some (20::real) \<and> get_tx_config (generator_cl lab_pair) 2425000000 20 = None
           \<or> get_sweep_config (sensor_cl lab_pair) 2425000000 2425000000 400000 = None"
    by simp
  from lookup_absent_raises[OF this, of 1 lab_world "[]"] h show ?thesis
    by simp
qed

subsection \<open>The schedule\<close>

text \<open>
  Claim C3. When a transmit power is given and both lookups succeed, \<open>measure\<close>
  submits exactly two programs, whatever the fuel: the transmit program, starting at
  \<open>T0 + 1\<close> for 14 time units, and then the sensing program, starting at \<open>T0 + 3\<close>
  for 10 time units, where \<open>T0\<close> is the time read at the start of the call. So
  \<open>tx_start \<le> rx_start\<close>, \<open>rx_stop \<le> tx_stop\<close> and \<open>rx_duration < tx_duration\<close>,
  with a margin of 2 time units on each side.
\<close>

theorem sensing_window_nested:
  assumes "get_tx_config (generator_cl self) f p = Some txc"
      and "get_sweep_config (sensor_cl self) f f 400000 = Some swc"
  shows "\<exists>g s. filter is_program (issued tr (fst (measure_np fuel w self tr f (Some p)))) =
                 [GeneratorProgram g, SensorProgram s] \<and>
               g = SignalGeneratorProgram txc (time_time w tr + 1) 14 \<and>
               s = SpectrumSensorProgram swc (time_time w tr + 3) 10 1 \<and>
               gp_start g \<le> sp_start s \<and>
               sp_start s + sp_duration s \<le> gp_start g + gp_duration g \<and>
               sp_duration s < gp_duration g \<and>
               gp_start g + 2 \<le> sp_start s \<and>
               sp_start s + sp_duration s + 2 \<le> gp_start g + gp_duration g"
proof -
  have "filter is_program (issued tr (fst (measure_np fuel w self tr f (Some p)))) =
          [GeneratorProgram (SignalGeneratorProgram txc (time_time w tr + 1) 14)] @
          [SensorProgram (SpectrumSensorProgram swc (time_time w tr + 3) 10 1)]"
    by (rule measure_programs[OF assms(2)]) (simp add: assms(1))
  then show ?thesis by simp
qed

text \<open>Witness for C3: \<open>lab_world\<close> at 2.425 GHz and 0 dBm, with \<open>T0 = 100\<close>.\<close>

theorem sensing_window_nested_witness:
  "get_tx_config (generator_cl lab_pair) 2425000000 0 = Some (TxConfig 0) \<and>
   get_sweep_config (sensor_cl lab_pair) 2425000000 2425000000 400000 = Some (SweepConfig 0) \<and>
   filter is_program (issued [] (fst (measure_np 1 lab_world lab_pair [] 2425000000 (Some 0)))) =
     [GeneratorProgram (SignalGeneratorProgram (TxConfig 0) 101 14),
      SensorProgram (SpectrumSensorProgram (SweepConfig 0) 103 10 1)]"
proof -
  have h1: "get_tx_config (generator_cl lab_pair) 2425000000 0 = Some (TxConfig 0)"
    and h2: "get_sweep_config (sensor_cl lab_pair) 2425000000 2425000000 400000 =
               Some (SweepConfig 0)"
    by (simp_all add: lab_pair_simps lab_lookups)
  have t: "time_time lab_world [] = 100" by (simp add: lab_world_def)
  from sensing_window_nested[OF h1 h2, of "[]" 1 lab_world] h1 h2 show ?thesis
    by (auto simp: t)
qed

subsection \<open>The noise measurement\<close>

lemma issued_measure_silent:
  "\<not> list_ex to_generator (issued tr (fst (measure_np fuel w self tr f None)))"
  using measure_extends[of fuel w self tr f None] by (auto simp: issued_def)

lemma programs_silent:
  "filter is_program (issued tr (fst (measure_np fuel w self tr f None))) =
     (case get_sweep_config (sensor_cl self) f f 400000 of
        None \<Rightarrow> []
      | Some swc \<Rightarrow> [SensorProgram (SpectrumSensorProgram swc (time_time w tr + 3) 10 1)])"
proof (cases "get_sweep_config (sensor_cl self) f f 400000")
  case None
  then show ?thesis by (simp add: measure_sweep_absent_silent issued_self)
next
  case (Some swc)
  have "filter is_program (issued tr (fst (measure_np fuel w self tr f None))) =
          [] @ [SensorProgram (SpectrumSensorProgram swc (time_time w tr + 3) 10 1)]"
    by (rule measure_programs[OF Some]) simp
  with Some show ?thesis by simp
qed

lemma programs_transmitting:
  assumes "get_tx_config (generator_cl self) f p = Some txc"
  shows "filter is_program (issued tr (fst (measure_np fuel w self tr f (Some p)))) =
     GeneratorProgram (SignalGeneratorProgram txc (time_time w tr + 1) 14) #
     (case get_sweep_config (sensor_cl self) f f 400000 of
        None \<Rightarrow> []
      | Some swc \<Rightarrow> [SensorProgram (SpectrumSensorProgram swc (time_time w tr + 3) 10 1)])"
proof (cases "get_sweep_config (sensor_cl self) f f 400000")
  case None
  then show ?thesis by (simp add: measure_sweep_absent_tx[OF assms] issued_append)
next
  case (Some swc)
  have "filter is_program (issued tr (fst (measure_np fuel w self tr f (Some p)))) =
          [GeneratorProgram (SignalGeneratorProgram txc (time_time w tr + 1) 14)] @
          [SensorProgram (SpectrumSensorProgram swc (time_time w tr + 3) 10 1)]"
    by (rule measure_programs[OF Some]) (simp add: assms)
  with Some show ?thesis by simp
qed

text \<open>
  Claim C5. A call of \<open>measure\<close> without a transmit power issues no call on the signal
  generator, on any prefix of its run. The programs it submits are the sensing program
  alone, starting at \<open>T0 + 3\<close> for 10 time units (none when the sensor has no sweep
  configuration for the frequency). A call with a transmit power whose lookup succeeds
  submits the transmit program followed by the same sensing programs, so the sensing
  program has the same offset from \<open>T0\<close> in both cases.
\<close>

theorem noise_only_measure:
  "\<not> list_ex to_generator (issued tr (fst (measure_np fuel w self tr f None))) \<and>
   filter is_program (issued tr (fst (measure_np fuel w self tr f None))) =
     (case get_sweep_config (sensor_cl self) f f 400000 of
        None \<Rightarrow> []
      | Some swc \<Rightarrow> [SensorProgram (SpectrumSensorProgram swc (time_time w tr + 3) 10 1)]) \<and>
   (\<forall>p txc. get_tx_config (generator_cl self) f p = Some txc \<longrightarrow>
      filter is_program (issued tr (fst (measure_np fuel w self tr f (Some p)))) =
        GeneratorProgram (SignalGeneratorProgram txc (time_time w tr + 1) 14) #
        filter is_program (issued tr (fst (measure_np fuel w self tr f None))))"
  by (simp add: issued_measure_silent programs_silent programs_transmitting)

text \<open>Witness for C5: \<open>lab_world\<close> at 2.425 GHz, silent and at 0 dBm.\<close>

theorem noise_only_measure_witness:
  "get_tx_config (generator_cl lab_pair) 2425000000 0 = Some (TxConfig 0) \<and>
   \<not> list_ex to_generator (issued [] (fst (measure_np 1 lab_world lab_pair [] 2425000000 None))) \<and>
   filter is_program (issued [] (fst (measure_np 1 lab_world lab_pair [] 2425000000 None))) =
     [SensorProgram (SpectrumSensorProgram (SweepConfig 0) 103 10 1)] \<and>
   filter is_program (issued [] (fst (measure_np 1 lab_world lab_pair [] 2425000000 (Some 0)))) =
     [GeneratorProgram (SignalGeneratorProgram (TxConfig 0) 101 14),
      SensorProgram (SpectrumSensorProgram (SweepConfig 0) 103 10 1)]"
proof -
  have h: "get_tx_config (generator_cl lab_pair) 2425000000 0 = Some (TxConfig 0)"
    by (simp add: lab_pair_simps lab_lookups)
  have t: "time_time lab_world [] = 100" by (simp add: lab_world_def)
  from noise_only_measure[of "[]" 1 lab_world lab_pair 2425000000] h show ?thesis
    by (simp add: lab_pair_simps lab_lookups t)
qed

subsection \<open>Polling\<close>

text \<open>
  Claim C6. In every run of \<open>measure\<close>, on every prefix of it, a retrieval is the last
  event and the event before it is a poll of the same program that was answered
  \<open>True\<close>. Once the sensing program \<open>sp\<close> has been submitted (trace \<open>pre\<close>), the loop
  polls, and after each poll answered \<open>False\<close> it prints and sleeps 2 time units before
  it polls again: if the first \<open>k\<close> polls are answered \<open>False\<close> and the next one \<open>True\<close>,
  then with any fuel above \<open>k\<close> the call makes exactly these \<open>k + 1\<close> polls, retrieves
  and ends; and as long as no poll is answered \<open>True\<close> the call is still polling,
  whatever the fuel, so no number of rounds ends the loop.
\<close>

theorem poll_until_complete:
  "(\<forall>xs q d ys.
      issued tr (fst (measure_np fuel w self tr f ptx)) = xs @ Retrieve q d # ys \<longrightarrow>
      ys = [] \<and> (\<exists>zs. xs = zs @ [IsComplete q True])) \<and>
   (\<forall>swc g sp pre.
      get_sweep_config (sensor_cl self) f f 400000 = Some swc \<and>
      (ptx = None \<and> g = [] \<or>
       (\<exists>p txc. ptx = Some p \<and> get_tx_config (generator_cl self) f p = Some txc \<and>
          g = [GeneratorProgram (SignalGeneratorProgram txc (time_time w tr + 1) 14)])) \<and>
      sp = SpectrumSensorProgram swc (time_time w tr + 3) 10 1 \<and>
      pre = tr @ g @ [SensorProgram sp] \<longrightarrow>
      (\<forall>k<fuel.
         (\<forall>j<k. \<not> is_complete w (pre @ polls sp j) sp) \<and>
         is_complete w (pre @ polls sp k) sp \<longrightarrow>
         measure_np fuel w self tr f ptx =
           (pre @ polls sp k @
              [IsComplete sp True,
               Retrieve sp (retrieve w (pre @ polls sp k @ [IsComplete sp True]) sp)],
            case first_column (retrieve w (pre @ polls sp k @ [IsComplete sp True]) sp) of
              Inl e \<Rightarrow> Raised e | Inr v \<Rightarrow> Returned v)) \<and>
      ((\<forall>j<fuel. \<not> is_complete w (pre @ polls sp j) sp) \<longrightarrow>
         measure_np fuel w self tr f ptx = (pre @ polls sp fuel, Running)))"
proof (intro conjI allI impI)
  fix xs q d ys
  assume "issued tr (fst (measure_np fuel w self tr f ptx)) = xs @ Retrieve q d # ys"
  from retrieve_last[OF this] show "ys = []" and "\<exists>zs. xs = zs @ [IsComplete q True]"
    by simp_all
next
  fix swc g sp pre k
  assume a: "get_sweep_config (sensor_cl self) f f 400000 = Some swc \<and>
      (ptx = None \<and> g = [] \<or>
       (\<exists>p txc. ptx = Some p \<and> get_tx_config (generator_cl self) f p = Some txc \<and>
          g = [GeneratorProgram (SignalGeneratorProgram txc (time_time w tr + 1) 14)])) \<and>
      sp = SpectrumSensorProgram swc (time_time w tr + 3) 10 1 \<and>
      pre = tr @ g @ [SensorProgram sp]"
    and k: "k < fuel"
    and c: "(\<forall>j<k. \<not> is_complete w (pre @ polls sp j) sp) \<and>
         is_complete w (pre @ polls sp k) sp"
  from a have sw: "get_sweep_config (sensor_cl self) f f 400000 = Some swc"
    and tx: "ptx = None \<and> g = [] \<or>
       (\<exists>p txc. ptx = Some p \<and> get_tx_config (generator_cl self) f p = Some txc \<and>
          g = [GeneratorProgram (SignalGeneratorProgram txc (time_time w tr + 1) 14)])"
    and sp: "sp = SpectrumSensorProgram swc (time_time w tr + 3) 10 1"
    and pre: "pre = tr @ g @ [SensorProgram sp]"
    by blast+
  from c have w1: "wait_complete fuel w sp pre = (pre @ polls sp k @ [IsComplete sp True], True)"
    by (intro wait_complete_first[OF _ _ k]) blast+
  show "measure_np fuel w self tr f ptx =
           (pre @ polls sp k @
              [IsComplete sp True,
               Retrieve sp (retrieve w (pre @ polls sp k @ [IsComplete sp True]) sp)],
            case first_column (retrieve w (pre @ polls sp k @ [IsComplete sp True]) sp) of
              Inl e \<Rightarrow> Raised e | Inr v \<Rightarrow> Returned v)"
    by (simp add: measure_sensing[OF sw tx sp pre] w1)
next
  fix swc g sp pre
  assume a: "get_sweep_config (sensor_cl self) f f 400000 = Some swc \<and>
      (ptx = None \<and> g = [] \<or>
       (\<exists>p txc. ptx = Some p \<and> get_tx_config (generator_cl self) f p = Some txc \<and>
          g = [GeneratorProgram (SignalGeneratorProgram txc (time_time w tr + 1) 14)])) \<and>
      sp = SpectrumSensorProgram swc (time_time w tr + 3) 10 1 \<and>
      pre = tr @ g @ [SensorProgram sp]"
    and n: "\<forall>j<fuel. \<not> is_complete w (pre @ polls sp j) sp"
  from a have sw: "get_sweep_config (sensor_cl self) f f 400000 = Some swc"
    and tx: "ptx = None \<and> g = [] \<or>
       (\<exists>p txc. ptx = Some p \<and> get_tx_config (generator_cl self) f p = Some txc \<and>
          g = [GeneratorProgram (SignalGeneratorProgram txc (time_time w tr + 1) 14)])"
    and sp: "sp = SpectrumSensorProgram swc (time_time w tr + 3) 10 1"
    and pre: "pre = tr @ g @ [SensorProgram sp]"
    by blast+
  show "measure_np fuel w self tr f ptx = (pre @ polls sp fuel, Running)"
    by (simp add: measure_sensing[OF sw tx sp pre] wait_complete_never[OF n])
qed

text \<open>
  Witness for C6: in \<open>slow_world\<close> two polls fail and the third succeeds; with fuel 5
  the call polls three times, sleeps twice and retrieves.
\<close>

theorem poll_until_complete_witness:
  "get_sweep_config (sensor_cl lab_pair) 2425000000 2425000000 400000 = Some (SweepConfig 0) \<and>
   \<not> is_complete slow_world
       ([SensorProgram (SpectrumSensorProgram (SweepConfig 0) 103 10 1)] @
        polls (SpectrumSensorProgram (SweepConfig 0) 103 10 1) 0)
       (SpectrumSensorProgram (SweepConfig 0) 103 10 1) \<and>
   \<not> is_complete slow_world
       ([SensorProgram (SpectrumSensorProgram (SweepConfig 0) 103 10 1)] @
        polls (SpectrumSensorProgram (SweepConfig 0) 103 10 1) 1)
       (SpectrumSensorProgram (SweepConfig 0) 103 10 1) \<and>
   is_complete slow_world
       ([SensorProgram (SpectrumSensorProgram (SweepConfig 0) 103 10 1)] @
        polls (SpectrumSensorProgram (SweepConfig 0) 103 10 1) 2)
       (SpectrumSensorProgram (SweepConfig 0) 103 10 1) \<and>
   measure_np 5 slow_world lab_pair [] 2425000000 None =
     ([SensorProgram (SpectrumSensorProgram (SweepConfig 0) 103 10 1),
       IsComplete (SpectrumSensorProgram (SweepConfig 0) 103 10 1) False,
       Print Waiting, Sleep 2,
       IsComplete (SpectrumSensorProgram (SweepConfig 0) 103 10 1) False,
       Print Waiting, Sleep 2,
       IsComplete (SpectrumSensorProgram (SweepConfig 0) 103 10 1) True,
       Retrieve (SpectrumSensorProgram (SweepConfig 0) 103 10 1) [[0], [0]]],
      Returned [0, 0])"
proof -
  define sp where "sp = SpectrumSensorProgram (SweepConfig 0) 103 10 1"
  define pre where "pre = [] @ [] @ [SensorProgram sp]"
  have t: "time_time slow_world [] = 100"
    by (simp add: slow_world_def lab_world_def)
  have sw: "get_sweep_config (sensor_cl lab_pair) 2425000000 2425000000 400000 =
              Some (SweepConfig 0)"
    by (simp add: lab_pair_simps lab_lookups)
  have c0: "\<not> is_complete slow_world (pre @ polls sp 0) sp"
    and c1: "\<not> is_complete slow_world (pre @ polls sp 1) sp"
    and c2: "is_complete slow_world (pre @ polls sp 2) sp"
    by (simp_all add: slow_world_def lab_world_def pre_def polls_0 polls_unfold)
  have first: "\<forall>j<2. \<not> is_complete slow_world (pre @ polls sp j) sp"
  proof (intro allI impI)
    fix j :: nat assume "j < 2"
    then have "j = 0 \<or> j = 1" by arith
    with c0 c1 show "\<not> is_complete slow_world (pre @ polls sp j) sp" by blast
  qed
  have hyp: "get_sweep_config (sensor_cl lab_pair) 2425000000 2425000000 400000 =
               Some (SweepConfig 0) \<and>
      ((None :: real option) = None \<and> ([] :: event list) = [] \<or>
       (\<exists>p txc. None = Some p \<and>
          get_tx_config (generator_cl lab_pair) 2425000000 p = Some txc \<and>
          [] = [GeneratorProgram (SignalGeneratorProgram txc (time_time slow_world [] + 1) 14)])) \<and>
      sp = SpectrumSensorProgram (SweepConfig 0) (time_time slow_world [] + 3) 10 1 \<and>
      pre = [] @ [] @ [SensorProgram sp]"
    using sw by (simp add: sp_def pre_def t)
  from poll_until_complete[of "[]" 5 slow_world lab_pair 2425000000 None]
  have "\<forall>k<5. (\<forall>j<k. \<not> is_complete slow_world (pre @ polls sp j) sp) \<and>
         is_complete slow_world (pre @ polls sp k) sp \<longrightarrow>
         measure_np 5 slow_world lab_pair [] 2425000000 None =
           (pre @ polls sp k @
              [IsComplete sp True,
               Retrieve sp (retrieve slow_world (pre @ polls sp k @ [IsComplete sp True]) sp)],
            case first_column (retrieve slow_world (pre @ polls sp k @ [IsComplete sp True]) sp) of
              Inl e \<Rightarrow> Raised e | Inr v \<Rightarrow> Returned v)"
    using hyp by blast
  then have "measure_np 5 slow_world lab_pair [] 2425000000 None =
           (pre @ polls sp 2 @
              [IsComplete sp True,
               Retrieve sp (retrieve slow_world (pre @ polls sp 2 @ [IsComplete sp True]) sp)],
            case first_column (retrieve slow_world (pre @ polls sp 2 @ [IsComplete sp True]) sp) of
              Inl e \<Rightarrow> Raised e | Inr v \<Rightarrow> Returned v)"
    using first c2 by simp
  moreover have "retrieve slow_world (pre @ polls sp 2 @ [IsComplete sp True]) sp = [[0], [0]]"
    by (simp add: slow_world_def lab_world_def pre_def polls_unfold)
  moreover have "first_column [[0], [0]] = Inr [0, 0]"
    by (simp add: first_column_def)
  ultimately have "measure_np 5 slow_world lab_pair [] 2425000000 None =
      (pre @ polls sp 2 @ [IsComplete sp True, Retrieve sp [[0], [0]]], Returned [0, 0])"
    by simp
  with sw c0 c1 c2 show ?thesis
    by (simp add: pre_def sp_def polls_0 polls_unfold)
qed

subsection \<open>The catalogs\<close>

text \<open>
  Claim C7. The constructor issues exactly one query for the catalog of the signal
  generator and one for the catalog of the sensor, and stores their answers. A call of
  \<open>measure\<close> or of \<open>get_channel_gain\<close> issues no catalog query on any prefix of its run
  and works on the stored catalogs: what the nodes would answer to a later query has no
  effect on the call. Neither method assigns to the object, which the model shows by
  taking \<open>self\<close> as an argument and not returning it.
\<close>

theorem catalogs_queried_once:
  "issued tr (snd (NodePair_init w tr)) = [GeneratorGetConfigList, SensorGetConfigList] \<and>
   fst (NodePair_init w tr) =
     \<lparr>generator_cl = generator_get_config_list w, sensor_cl = sensor_get_config_list w\<rparr> \<and>
   filter is_query (issued tr (fst (measure_np fuel w self tr f ptx))) = [] \<and>
   filter is_query (issued tr (fst (get_channel_gain fuel w self tr f p))) = [] \<and>
   measure_np fuel (w\<lparr>generator_get_config_list := gcl, sensor_get_config_list := scl\<rparr>)
     self tr f ptx = measure_np fuel w self tr f ptx \<and>
   get_channel_gain fuel (w\<lparr>generator_get_config_list := gcl, sensor_get_config_list := scl\<rparr>)
     self tr f p = get_channel_gain fuel w self tr f p"
proof -
  have "issued tr (snd (NodePair_init w tr)) = [GeneratorGetConfigList, SensorGetConfigList]"
    by (simp add: NodePair_init_def issued_def)
  moreover have "fst (NodePair_init w tr) =
     \<lparr>generator_cl = generator_get_config_list w, sensor_cl = sensor_get_config_list w\<rparr>"
    by (simp add: NodePair_init_def)
  moreover have "filter is_query (issued tr (fst (measure_np fuel w self tr f ptx))) = []"
    using measure_extends[of fuel w self tr f ptx] by (auto simp: issued_def)
  moreover have "filter is_query (issued tr (fst (get_channel_gain fuel w self tr f p))) = []"
    using get_channel_gain_extends[of fuel w self tr f p] by (auto simp: issued_def)
  ultimately show ?thesis
    by (simp add: measure_catalogs get_channel_gain_catalogs)
qed

text \<open>Witness for C7: the constructor and a gain measurement in \<open>lab_world\<close>.\<close>

theorem catalogs_queried_once_witness:
  "issued [] (snd (NodePair_init lab_world [])) = [GeneratorGetConfigList, SensorGetConfigList] \<and>
   filter is_query
     (issued [GeneratorGetConfigList, SensorGetConfigList]
        (fst (get_channel_gain 1 lab_world lab_pair
                [GeneratorGetConfigList, SensorGetConfigList] 2425000000 0))) = []"
  using catalogs_queried_once[where tr = "[]" and w = lab_world]
    catalogs_queried_once[where tr = "[GeneratorGetConfigList, SensorGetConfigList]"
      and w = lab_world and fuel = 1 and self = lab_pair and f = 2425000000 and p = 0]
  by simp

subsection \<open>The gain estimate\<close>

text \<open>
  Claim C1. When both measurements of \<open>get_channel_gain\<close> return sample series, the value
  returned is \<open>10 * log10(gain_linear)\<close>, with \<open>gain_linear\<close> as the specification words
  it: the mean of \<open>10^(s/10)\<close> over the signal series minus the mean of \<open>10^(n/10)\<close> over
  the noise series, divided by \<open>10^(ptx_dbm/10)\<close>. The logarithm is numpy's; where
  \<open>gain_linear\<close> is positive it is the real logarithm. Arithmetic is exact here, so the
  equality is up to the rounding of float64.
\<close>

theorem gain_formula:
  assumes "measure_np fuel w self tr f None = (tr1, Returned noise)"
      and "measure_np fuel w self tr1 f (Some p) = (tr2, Returned signal)"
  shows "snd (get_channel_gain fuel w self tr f p) =
           Returned (np_times 10 (np_log10 (Fin (spec_gain_linear noise signal p)))) \<and>
         (0 < spec_gain_linear noise signal p \<longrightarrow>
            snd (get_channel_gain fuel w self tr f p) =
              Returned (Fin (10 * log 10 (spec_gain_linear noise signal p))))"
proof -
  have ne: "noise \<noteq> []" "signal \<noteq> []"
    using assms measure_returned_nonempty by blast+
  have "snd (get_channel_gain fuel w self tr f p) =
          Returned (mw_to_db (Fin (spec_gain_linear noise signal p)))"
    by (simp add: get_channel_gain_returned[OF assms] h_mean_value[OF ne])
  then show ?thesis
    by (simp add: mw_to_db_def)
qed

text \<open>Witness for C1: in \<open>lab_world\<close> the noise is 1 mW, the signal 10 mW and the gain 9.\<close>

theorem gain_formula_witness:
  "measure_np 1 lab_world lab_pair [] 2425000000 None =
     ([SensorProgram (SpectrumSensorProgram (SweepConfig 0) 103 10 1),
       IsComplete (SpectrumSensorProgram (SweepConfig 0) 103 10 1) True,
       Retrieve (SpectrumSensorProgram (SweepConfig 0) 103 10 1) [[0], [0]]],
      Returned [0, 0]) \<and>
   spec_gain_linear [0, 0] [10, 10] 0 = 9 \<and>
   snd (get_channel_gain 1 lab_world lab_pair [] 2425000000 0) =
     Returned (Fin (10 * log 10 9))"
proof -
  have g: "spec_gain_linear [0, 0] [10, 10] 0 = 9"
    by (simp add: spec_gain_linear_def spec_mean_def)
  from gain_formula[OF lab_measure_noise lab_measure_signal] g lab_measure_noise
  show ?thesis by simp
qed

subsection \<open>Signal at or below the noise\<close>

text \<open>
  Claim C4 as stated fails. In \<open>deaf_world\<close> both measurements return the series
  \<open>[0]\<close>, so the mean signal power equals the mean noise power, and
  \<open>get_channel_gain\<close> returns \<^verbatim>\<open>-inf\<close>: no condition is raised.
\<close>

theorem below_noise_floor_counterexample:
  "snd (measure_np 1 deaf_world lab_pair [] 2425000000 None) = Returned [0] \<and>
   snd (measure_np 1 deaf_world lab_pair
          (fst (measure_np 1 deaf_world lab_pair [] 2425000000 None)) 2425000000 (Some 0)) =
     Returned [0] \<and>
   snd (get_channel_gain 1 deaf_world lab_pair [] 2425000000 0) = Returned NegInf"
  using deaf_measure_noise deaf_measure_signal[of 0] deaf_gain[of 0] by simp

text \<open>
  Claim C4, amended. When both measurements return series and the mean linear signal
  power is at most the mean linear noise power, \<open>get_channel_gain\<close> raises nothing and
  returns a value to the caller: \<^verbatim>\<open>-inf\<close> when the two means are equal and \<^verbatim>\<open>nan\<close> when
  the signal mean is smaller (numpy only prints a warning).
\<close>

theorem below_noise_floor_returns:
  assumes "measure_np fuel w self tr f None = (tr1, Returned noise)"
      and "measure_np fuel w self tr1 f (Some p) = (tr2, Returned signal)"
      and "spec_mean (map (\<lambda>s. 10 powr (s / 10)) signal)
             \<le> spec_mean (map (\<lambda>n. 10 powr (n / 10)) noise)"
  shows "snd (get_channel_gain fuel w self tr f p) =
           Returned (if spec_mean (map (\<lambda>s. 10 powr (s / 10)) signal)
                          = spec_mean (map (\<lambda>n. 10 powr (n / 10)) noise)
                     then NegInf else NaN)"
proof -
  have ne: "noise \<noteq> []" "signal \<noteq> []"
    using assms measure_returned_nonempty by blast+
  have res: "snd (get_channel_gain fuel w self tr f p) =
          Returned (mw_to_db (Fin (spec_gain_linear noise signal p)))"
    by (simp add: get_channel_gain_returned[OF assms(1,2)] h_mean_value[OF ne])
  have pos: "(0::real) < 10 powr (p / 10)"
    by simp
  let ?d = "spec_mean (map (\<lambda>s. 10 powr (s / 10)) signal)
              - spec_mean (map (\<lambda>n. 10 powr (n / 10)) noise)"
  have g: "spec_gain_linear noise signal p = ?d / 10 powr (p / 10)"
    by (simp add: spec_gain_linear_def)
  show ?thesis
  proof (cases "?d = 0")
    case True
    then have "spec_gain_linear noise signal p = 0"
      by (simp add: g)
    with True show ?thesis
      by (simp add: res mw_to_db_def)
  next
    case False
    with assms(3) have "?d < 0"
      by simp
    then have "spec_gain_linear noise signal p < 0"
      unfolding g using pos by (rule divide_neg_pos)
    with False show ?thesis
      by (simp add: res mw_to_db_def)
  qed
qed

text \<open>Witness for C4: in \<open>shadow_world\<close> the signal is 1 mW under a noise of 10 mW.\<close>

theorem below_noise_floor_returns_witness:
  "snd (measure_np 1 shadow_world lab_pair [] 2425000000 None) = Returned [10] \<and>
   spec_mean (map (\<lambda>s. 10 powr (s / 10)) [0]) = 1 \<and>
   spec_mean (map (\<lambda>n. 10 powr (n / 10)) [10]) = 10 \<and>
   snd (get_channel_gain 1 shadow_world lab_pair [] 2425000000 0) = Returned NaN"
proof -
  have m: "spec_mean (map (\<lambda>s. 10 powr (s / 10)) [0]) = 1"
    "spec_mean (map (\<lambda>n. 10 powr (n / 10)) [10]) = 10"
    by (simp_all add: spec_mean_def)
  then have le: "spec_mean (map (\<lambda>s. 10 powr (s / 10)) [0])
                   \<le> spec_mean (map (\<lambda>n. 10 powr (n / 10)) [10])"
    by simp
  from below_noise_floor_returns[OF shadow_measure_noise shadow_measure_signal le] m
    shadow_measure_noise
  show ?thesis by simp
qed

subsection \<open>The signal mean and the transmit power\<close>

text \<open>
  Claim C8 as stated fails. In \<open>deaf_world\<close> the sensor reads the same power whatever
  the transmitter sends: the gain measurements at 0 dBm and at 10 dBm have the same
  noise measurement and print the same signal mean, 1 mW.
\<close>

theorem tx_power_counterexample:
  "(0::real) < 10 \<and>
   snd (get_channel_gain 1 deaf_world lab_pair [] 2425000000 0) = Returned NegInf \<and>
   snd (get_channel_gain 1 deaf_world lab_pair [] 2425000000 10) = Returned NegInf \<and>
   rx_means (issued [] (fst (get_channel_gain 1 deaf_world lab_pair [] 2425000000 0))) =
     [Fin 1] \<and>
   rx_means (issued [] (fst (get_channel_gain 1 deaf_world lab_pair [] 2425000000 10))) =
     [Fin 1]"
  using deaf_gain[of 0] deaf_gain[of 10] by (simp add: issued_def)

text \<open>
  Claim C8, amended. The signal mean that enters the gain formula (the one the program
  prints) is the mean linear power of the samples the sensing node reported for the
  second measurement. The transmit power reaches it through these samples only: the
  mean strictly increases whenever every reported sample strictly increases, and it is
  the same for the same samples.
\<close>

theorem signal_mean_from_samples:
  assumes "measure_np fuel w self tr f None = (tr1, Returned noise)"
      and "measure_np fuel w self tr1 f (Some p) = (tr2, Returned signal)"
  shows "rx_means (issued tr (fst (get_channel_gain fuel w self tr f p))) =
           [Fin (spec_mean (map db_to_mw signal))] \<and>
         (\<forall>signal'. list_all2 (<) signal signal' \<longrightarrow>
            spec_mean (map db_to_mw signal) < spec_mean (map db_to_mw signal'))"
proof -
  have ne: "signal \<noteq> []"
    using assms(2) measure_returned_nonempty by blast
  from measure_extends[of fuel w self tr f None] assms(1) obtain xs1 where
    x1: "tr1 = tr @ xs1" "rx_means xs1 = []"
    by auto
  from measure_extends[of fuel w self tr1 f "Some p"] assms(2) obtain xs2 where
    x2: "tr2 = tr1 @ xs2" "rx_means xs2 = []"
    by auto
  have "rx_means (issued tr (fst (get_channel_gain fuel w self tr f p))) =
           [np_mean (map db_to_mw signal)]"
    by (simp add: get_channel_gain_returned[OF assms] x1 x2 issued_def rx_means_append)
  with ne show ?thesis
    by (simp add: np_mean_nonempty spec_mean_strict_mono)
qed

text \<open>Witness for C8: \<open>lab_world\<close> reports 10 dBm twice; 20 dBm twice would give more.\<close>

theorem signal_mean_from_samples_witness:
  "snd (measure_np 1 lab_world lab_pair [] 2425000000 None) = Returned [0, 0] \<and>
   rx_means (issued [] (fst (get_channel_gain 1 lab_world lab_pair [] 2425000000 0))) =
     [Fin 10] \<and>
   list_all2 (<) [10, 10] [20, 20 :: real] \<and>
   spec_mean (map db_to_mw [10, 10]) < spec_mean (map db_to_mw [20, 20])"
proof -
  have m: "spec_mean (map db_to_mw [10, 10]) = 10"
    by (simp add: spec_mean_def db_to_mw_def)
  have l: "list_all2 (<) [10, 10] [20, 20 :: real]"
    by simp
  from signal_mean_from_samples[OF lab_measure_noise lab_measure_signal]
  have r: "rx_means (issued [] (fst (get_channel_gain 1 lab_world lab_pair [] 2425000000 0))) =
             [Fin (spec_mean (map db_to_mw [10, 10]))]"
    and a: "\<forall>signal'. list_all2 (<) [10, 10] signal' \<longrightarrow>
              spec_mean (map db_to_mw [10, 10]) < spec_mean (map db_to_mw signal')"
    by blast+
  from a l have "spec_mean (map db_to_mw [10, 10]) < spec_mean (map db_to_mw [20, 20])"
    by blast
  with r m l lab_measure_noise show ?thesis
    by simp
qed

end
